theory Spec2Isabelle
  imports Complex_Main
begin

section \<open>NumPy arrays\<close>

text \<open>
  The notebooks build their grids with NumPy. An array is its shape together with its
  elements in row-major order; Python floats are modelled as exact reals, so every
  statement below about grid values is a statement about the decimal literals of the
  notebooks, not about their binary64 roundings.
\<close>

record ndarray =
  shape :: "nat list"
  data :: "real list"

definition array :: "real list \<Rightarrow> ndarray" where
  "array xs = \<lparr>shape = [length xs], data = xs\<rparr>"

definition zeros :: "nat list \<Rightarrow> ndarray" where
  "zeros sh = \<lparr>shape = sh, data = replicate (prod_list sh) 0\<rparr>"

text \<open>
  \<^verbatim>\<open>np.linspace(start, stop, num)\<close> with the default \<^verbatim>\<open>endpoint=True\<close>: \<open>num\<close> samples
  \<open>start + i * step\<close>, the last one overwritten by \<open>stop\<close> when \<open>num > 1\<close>.
\<close>

definition linspace :: "real \<Rightarrow> real \<Rightarrow> nat \<Rightarrow> ndarray" where
  "linspace start stop num =
     (let dv = num - 1;
          delta = stop - start;
          y = (if 0 < dv then map (\<lambda>i. real i * (delta / real dv) + start) [0..<num]
               else map (\<lambda>i. real i * delta + start) [0..<num])
      in array (if 1 < num then y[num - 1 := stop] else y))"

text \<open>
  \<^verbatim>\<open>np.arange(start, stop, step)\<close>: \<open>ceil((stop - start) / step)\<close> samples
  \<open>start + i * step\<close>, the half-open interval. Every step of the notebooks is a nonzero
  literal; NumPy's error for a zero step is outside the model.
\<close>

definition arange :: "real \<Rightarrow> real \<Rightarrow> real \<Rightarrow> ndarray" where
  "arange start stop step =
     array (map (\<lambda>i. start + real i * step) [0..<nat \<lceil>(stop - start) / step\<rceil>])"

definition concatenate :: "ndarray list \<Rightarrow> ndarray" where
  "concatenate arrs = array (concat (map data arrs))"

text \<open>
  \<^verbatim>\<open>np.meshgrid(x, v)\<close> with the default \<^verbatim>\<open>indexing='xy'\<close>: both outputs have shape
  \<open>(len(v), len(x))\<close>; the first repeats \<open>x\<close> along every row, the second holds \<open>v[i]\<close>
  throughout row \<open>i\<close>.
\<close>

definition meshgrid :: "ndarray \<Rightarrow> ndarray \<Rightarrow> ndarray \<times> ndarray" where
  "meshgrid x1 x2 =
     (let nx = length (data x1); ny = length (data x2)
      in (\<lparr>shape = [ny, nx], data = concat (replicate ny (data x1))\<rparr>,
          \<lparr>shape = [ny, nx], data = concat (map (replicate nx) (data x2))\<rparr>))"

datatype error =
    LibraryError string
  | ValueError string
  | KeyError string
  | IndexError string

text \<open>\<^verbatim>\<open>a[i]\<close> on the first axis of an array.\<close>

definition getitem :: "ndarray \<Rightarrow> nat \<Rightarrow> error + ndarray" where
  "getitem a i =
     (case shape a of
        [] \<Rightarrow> Inl (IndexError ''invalid index to scalar variable'')
      | n # sh \<Rightarrow>
          if i < n
          then Inr \<lparr>shape = sh, data = take (prod_list sh) (drop (i * prod_list sh) (data a))\<rparr>
          else Inl (IndexError ''index out of bounds''))"

section \<open>Grids\<close>

type_synonym vec3 = "real \<times> real \<times> real"

text \<open>A Python list \<^verbatim>\<open>[ax, ay, az]\<close> of three coordinate arrays.\<close>

type_synonym grid3 = "ndarray \<times> ndarray \<times> ndarray"

definition grid_shape :: "grid3 \<Rightarrow> nat list" where
  "grid_shape g = (case g of (ax, ay, az) \<Rightarrow> shape ax)"

definition same_shape :: "grid3 \<Rightarrow> grid3 \<Rightarrow> bool" where
  "same_shape g h =
     (case (g, h) of ((ax, ay, az), (bx, by, bz)) \<Rightarrow>
        shape ay = shape ax \<and> shape az = shape ax \<and>
        shape bx = shape ax \<and> shape by = shape ax \<and> shape bz = shape ax)"

definition points :: "grid3 \<Rightarrow> vec3 list" where
  "points g = (case g of (ax, ay, az) \<Rightarrow> zip (data ax) (zip (data ay) (data az)))"

text \<open>The (position, velocity) pairs of a pair of grids, in iteration order.\<close>

definition grid_pairs :: "grid3 \<times> grid3 \<Rightarrow> (vec3 \<times> vec3) list" where
  "grid_pairs g = zip (points (fst g)) (points (snd g))"

text \<open>The velocity sequence of \<^verbatim>\<open>part_000\<close> (lines 126-127) and its position sequence (125).\<close>

definition part_000_x :: ndarray where
  "part_000_x = linspace 0.0 0.0 1"

definition part_000_v :: ndarray where
  "part_000_v = concatenate [linspace 0.01 0.5 10, linspace 0.5 2.5 5]"

text \<open>
  The arguments of \<^verbatim>\<open>generate_force_profile\<close> in \<^verbatim>\<open>part_000\<close> (lines 132, 146-147):
  \<^verbatim>\<open>X, V = np.meshgrid(x, v)\<close>, positions \<^verbatim>\<open>[0, 0, X]\<close>, velocities \<^verbatim>\<open>[0, 0, V]\<close>.
\<close>

definition part_000_grid :: "ndarray \<Rightarrow> ndarray \<Rightarrow> grid3 \<times> grid3" where
  "part_000_grid x v =
     (case meshgrid x v of (X, V) \<Rightarrow>
        ((zeros (shape X), zeros (shape X), X), (zeros (shape V), zeros (shape V), V)))"

text \<open>The velocity sequence of \<^verbatim>\<open>two_three_forces.ipynb\<close> (lines 161-170).\<close>

definition two_three_v :: ndarray where
  "two_three_v = concatenate
     [arange (-5.1) (-0.1) 0.1,
      arange (-0.1) (-0.03) 0.01,
      arange (-0.03) (-0.02) 0.005,
      arange (-0.02) (-0.01) 0.002,
      arange (-0.01) (-0.001) 0.001,
      arange 0.001 0.01 0.001,
      arange 0.01 0.02 0.002,
      arange 0.02 0.03 0.005,
      arange 0.03 0.1 0.01,
      arange 0.1 5.1 0.1]"

text \<open>
  The arguments of \<^verbatim>\<open>generate_force_profile\<close> in \<^verbatim>\<open>two_three_forces.ipynb\<close> (lines 182-183):
  positions \<^verbatim>\<open>[0, 0, 0]\<close>, velocities \<^verbatim>\<open>[0, 0, v]\<close>, all of the shape of \<open>v\<close>.
\<close>

definition two_three_grid :: "ndarray \<Rightarrow> grid3 \<times> grid3" where
  "two_three_grid v =
     ((zeros (shape v), zeros (shape v), zeros (shape v)), (zeros (shape v), zeros (shape v), v))"

text \<open>A list of reals is ascending when every element is below its successor.\<close>

fun ascending :: "real list \<Rightarrow> bool" where
  "ascending [] = True"
| "ascending [a] = True"
| "ascending (a # b # xs) = (a < b \<and> ascending (b # xs))"

section \<open>The simulation library\<close>

text \<open>
  The magnetic field handed to the library. The notebooks use
  \<^verbatim>\<open>pylcp.constantMagneticField\<close>; \<^verbatim>\<open>pylcp.quadrupoleMagneticField\<close> appears in them
  only inside a comment.
\<close>

datatype mag_field = constantMagneticField vec3 | quadrupoleMagneticField real

fun field_at :: "mag_field \<Rightarrow> vec3 \<Rightarrow> vec3" where
  "field_at (constantMagneticField B0) r = B0"
| "field_at (quadrupoleMagneticField a) (x, y, z) = (- a * x / 2, - a * y / 2, a * z)"

definition magField :: mag_field where
  "magField = constantMagneticField (0, 0, 0)"

record beam =
  kvec :: vec3
  pol :: vec3
  pol_coord :: string
  beam_delta :: real
  beam_s :: real

record laser_beams =
  beams :: "beam list"
  beam_type :: string

text \<open>\<^verbatim>\<open>return_lasers\<close> of \<^verbatim>\<open>two_three_forces.ipynb\<close> (lines 122-133).\<close>

definition return_lasers :: "real \<Rightarrow> real \<Rightarrow> vec3 \<times> vec3 \<Rightarrow> laser_beams" where
  "return_lasers delta s pl =
     (let pol_coord =
            (if snd (snd (fst pl)) > 0 \<or> fst (snd (fst pl)) > 0 then ''spherical''
             else ''cartesian'')
      in \<lparr>beams =
            [\<lparr>kvec = (0, 0, 1), pol = fst pl, pol_coord = pol_coord,
              beam_delta = delta, beam_s = s\<rparr>,
             \<lparr>kvec = (0, 0, - 1), pol = snd pl, pol_coord = pol_coord,
              beam_delta = delta, beam_s = s\<rparr>],
          beam_type = ''infinitePlaneWaveBeam''\<rparr>)"

record force_profile =
  profile_R :: grid3
  profile_V :: grid3
  profile_F :: ndarray

datatype governing = Rateeq | Obe

text \<open>
  A force-evaluation object: what its constructor was given, and the profiles it has
  computed, by name. The laser beams of \<^verbatim>\<open>part_000\<close> and both Hamiltonians come out of
  the library and stay opaque (\<open>'b\<close>, \<open>'h\<close>).
\<close>

record ('b, 'h) trap =
  governing_eq :: governing
  obj_laserBeams :: 'b
  obj_magField :: mag_field
  obj_hamiltonian :: 'h
  include_mag_forces :: bool
  transform_into_re_im :: "bool option"
  profile :: "string \<rightharpoonup> force_profile"

definition pylcp_rateeq :: "'b \<Rightarrow> mag_field \<Rightarrow> 'h \<Rightarrow> bool \<Rightarrow> ('b, 'h) trap" where
  "pylcp_rateeq lb mf ham imf =
     \<lparr>governing_eq = Rateeq, obj_laserBeams = lb, obj_magField = mf, obj_hamiltonian = ham,
      include_mag_forces = imf, transform_into_re_im = None, profile = Map.empty\<rparr>"

definition pylcp_obe :: "'b \<Rightarrow> mag_field \<Rightarrow> 'h \<Rightarrow> bool \<Rightarrow> bool option \<Rightarrow> ('b, 'h) trap" where
  "pylcp_obe lb mf ham imf re_im =
     \<lparr>governing_eq = Obe, obj_laserBeams = lb, obj_magField = mf, obj_hamiltonian = ham,
      include_mag_forces = imf, transform_into_re_im = re_im, profile = Map.empty\<rparr>"

text \<open>
  What a run does besides computing: objects constructed, names bound in the notebook,
  evaluations requested of the library, progress lines printed.
\<close>

datatype ('b, 'h) event =
    Constructed "('b, 'h) trap"
  | Stored string
  | Evaluated "('b, 'h) trap" grid3 grid3 string
  | Progress nat

fun constructed :: "('b, 'h) event list \<Rightarrow> ('b, 'h) trap list" where
  "constructed [] = []"
| "constructed (Constructed t # es) = t # constructed es"
| "constructed (e # es) = constructed es"

fun stores :: "('b, 'h) event list \<Rightarrow> string list" where
  "stores [] = []"
| "stores (Stored k # es) = k # stores es"
| "stores (e # es) = stores es"

fun evaluations :: "('b, 'h) event list \<Rightarrow> (('b, 'h) trap \<times> grid3 \<times> grid3 \<times> string) list" where
  "evaluations [] = []"
| "evaluations (Evaluated t R V n # es) = (t, R, V, n) # evaluations es"
| "evaluations (e # es) = evaluations es"

text \<open>
  The numerical solution at one grid point is the library's: a parameter, which may raise.
  It sees the object, the keyword arguments passed through, the position and the velocity.
\<close>

type_synonym ('b, 'h) solver =
  "('b, 'h) trap \<Rightarrow> (string \<times> real) list \<Rightarrow> vec3 \<Rightarrow> vec3 \<Rightarrow> error + vec3"

text \<open>The forces of the points solved before the first failure, and that failure, if any.\<close>

fun solve_points :: "(vec3 \<Rightarrow> vec3 \<Rightarrow> error + vec3) \<Rightarrow> (vec3 \<times> vec3) list
    \<Rightarrow> vec3 list \<times> error option" where
  "solve_points f [] = ([], None)"
| "solve_points f (rv # ps) =
     (case f (fst rv) (snd rv) of
        Inl e \<Rightarrow> ([], Some e)
      | Inr F \<Rightarrow> (case solve_points f ps of (Fs, err) \<Rightarrow> (F # Fs, err)))"

text \<open>
  Modelled from the spec: \<^verbatim>\<open>generate_force_profile\<close> of the external simulation library,
  which is not part of the repository. Following sections 3, 4.1 and 6 of the
  specification: given position and velocity grids it computes a force vector of three
  components at every grid point and stores them under the profile's name, in an array
  whose shape matches the grid; it may raise; it optionally reports progress. The three
  components are laid out as three blocks of the grid's shape.
\<close>

definition generate_force_profile :: "('b, 'h) solver \<Rightarrow> ('b, 'h) trap \<Rightarrow> grid3 \<Rightarrow> grid3
    \<Rightarrow> string \<Rightarrow> (string \<times> real) list \<Rightarrow> bool
    \<Rightarrow> (error + ('b, 'h) trap) \<times> ('b, 'h) event list" where
  "generate_force_profile solve t R V name kwargs progress_bar =
     (if \<not> same_shape R V
      then (Inl (ValueError ''operands could not be broadcast together''), [Evaluated t R V name])
      else
        case solve_points (solve t kwargs) (grid_pairs (R, V)) of (Fs, err) \<Rightarrow>
          let out = Evaluated t R V name #
                    (if progress_bar then map Progress [1..<Suc (length Fs)] else [])
          in case err of
               Some e \<Rightarrow> (Inl e, out)
             | None \<Rightarrow>
                 (Inr (t\<lparr>profile := (profile t)(name \<mapsto>
                         \<lparr>profile_R = R, profile_V = V,
                          profile_F = \<lparr>shape = 3 # grid_shape R,
                                       data = map fst Fs @ map (fst \<circ> snd) Fs
                                              @ map (snd \<circ> snd) Fs\<rparr>\<rparr>)\<rparr>),
                  out))"

text \<open>
  The force array found through a variable or dictionary slot of the notebook:
  \<^verbatim>\<open>slot.profile[name].F\<close>, when the slot is bound and holds a profile of that name.
\<close>

definition stored_force :: "('b, 'h) trap option \<Rightarrow> string \<Rightarrow> ndarray option" where
  "stored_force slot name =
     (case slot of None \<Rightarrow> None | Some t \<Rightarrow> map_option profile_F (profile t name))"

section \<open>The notebook \<^verbatim>\<open>part_000\<close>\<close>

record ('b, 'h) session =
  trace :: "('b, 'h) event list"

record ('b, 'h) part_000_state = "('b, 'h) session" +
  trap_D2 :: "('b, 'h) trap option"
  Fz_D2 :: "ndarray option"

text \<open>
  The object lines 135-144 construct: the branch on \<open>eq\<close> chooses the class, and both
  branches pass the same field and \<^verbatim>\<open>include_mag_forces=False\<close>.
\<close>

definition new_trap :: "string \<Rightarrow> 'b \<Rightarrow> 'h \<Rightarrow> ('b, 'h) trap" where
  "new_trap eq laserBeams_D2 hamiltonian_D2 =
     (if eq = ''rateeq''
      then pylcp_rateeq laserBeams_D2 magField hamiltonian_D2 False
      else pylcp_obe laserBeams_D2 magField hamiltonian_D2 False None)"

text \<open>
  Lines 125-149, with the literals of the cell (\<open>eq\<close>, \<open>x\<close>, \<open>v\<close>, the profile's name, the
  progress flag) as parameters. An exception leaves the notebook's variables as they were
  when it was raised.
\<close>

definition force_cell :: "('b, 'h) solver \<Rightarrow> string \<Rightarrow> 'b \<Rightarrow> 'h \<Rightarrow> ndarray \<Rightarrow> ndarray
    \<Rightarrow> string \<Rightarrow> bool \<Rightarrow> ('b, 'h) part_000_state
    \<Rightarrow> error option \<times> ('b, 'h) part_000_state" where
  "force_cell solve eq laserBeams_D2 hamiltonian_D2 x v name progress_bar st =
     (let g = part_000_grid x v;
          new = new_trap eq laserBeams_D2 hamiltonian_D2;
          st1 = st\<lparr>trace := trace st @ [Constructed new, Stored ''trap_D2''],
                   trap_D2 := Some new\<rparr>
      in case generate_force_profile solve new (fst g) (snd g) name [] progress_bar of
           (Inl e, out) \<Rightarrow> (Some e, st1\<lparr>trace := trace st1 @ out\<rparr>)
         | (Inr done, out) \<Rightarrow>
             let st2 = st1\<lparr>trace := trace st1 @ out, trap_D2 := Some done\<rparr>
             in case profile done name of
                  None \<Rightarrow> (Some (KeyError name), st2)
                | Some p \<Rightarrow>
                    (case getitem (profile_F p) 2 of
                       Inl e \<Rightarrow> (Some e, st2)
                     | Inr Fz \<Rightarrow>
                         (None, st2\<lparr>trace := trace st2 @ [Stored ''Fz_D2''],
                                    Fz_D2 := Some Fz\<rparr>)))"

text \<open>The cell as the notebook has it: \<^verbatim>\<open>eq = "obe"\<close>, its own grid, the name \<^verbatim>\<open>'Fz'\<close>.\<close>

definition part_000_run :: "('b, 'h) solver \<Rightarrow> 'b \<Rightarrow> 'h \<Rightarrow> ('b, 'h) part_000_state
    \<Rightarrow> error option \<times> ('b, 'h) part_000_state" where
  "part_000_run solve laserBeams_D2 hamiltonian_D2 st =
     force_cell solve ''obe'' laserBeams_D2 hamiltonian_D2 part_000_x part_000_v ''Fz'' True st"

section \<open>The notebook \<^verbatim>\<open>two_three_forces.ipynb\<close>\<close>

record 'h two_three_state = "(laser_beams, 'h) session" +
  obe :: "string \<rightharpoonup> (laser_beams, 'h) trap"

text \<open>The keyword arguments of line 184-185 that go through to the solver.\<close>

definition molasses_kwargs :: "(string \<times> real) list" where
  "molasses_kwargs =
     [(''deltat_v'', 4), (''deltat_tmax'', 2 * pi * 5000), (''itermax'', 1000),
      (''rel'', 1 / 10 ^ 8), (''abs'', 1 / 10 ^ 10)]"

text \<open>The object line 176-179 constructs for one polarization.\<close>

definition new_obe :: "real \<Rightarrow> 'h \<Rightarrow> vec3 \<times> vec3 \<Rightarrow> (laser_beams, 'h) trap" where
  "new_obe s hamiltonian pl =
     pylcp_obe (return_lasers 0 s pl) magField hamiltonian False (Some True)"

text \<open>What the evaluation of one polarization returns, taken on its own.\<close>

definition evaluate_one :: "(laser_beams, 'h) solver \<Rightarrow> real \<Rightarrow> 'h \<Rightarrow> ndarray \<Rightarrow> bool
    \<Rightarrow> vec3 \<times> vec3 \<Rightarrow> error + (laser_beams, 'h) trap" where
  "evaluate_one solve s hamiltonian v progress_bar pl =
     fst (generate_force_profile solve (new_obe s hamiltonian pl)
            (fst (two_three_grid v)) (snd (two_three_grid v)) ''molasses'' molasses_kwargs
            progress_bar)"

text \<open>
  The body of the loop of lines 173-186 for one item of \<open>pols\<close>: bind the new object under
  its label, then ask it for the profile, which fills the object in place.
\<close>

definition sweep_body :: "(laser_beams, 'h) solver \<Rightarrow> real \<Rightarrow> 'h \<Rightarrow> ndarray \<Rightarrow> bool
    \<Rightarrow> string \<times> vec3 \<times> vec3 \<Rightarrow> 'h two_three_state
    \<Rightarrow> error option \<times> 'h two_three_state" where
  "sweep_body solve s hamiltonian v progress_bar item st =
     (let key_beam = fst item;
          new = new_obe s hamiltonian (snd item);
          st1 = st\<lparr>trace := trace st @ [Constructed new, Stored key_beam],
                   obe := (obe st)(key_beam \<mapsto> new)\<rparr>;
          g = two_three_grid v
      in case generate_force_profile solve new (fst g) (snd g) ''molasses'' molasses_kwargs
                progress_bar of
           (Inl e, out) \<Rightarrow> (Some e, st1\<lparr>trace := trace st1 @ out\<rparr>)
         | (Inr done, out) \<Rightarrow>
             (None, st1\<lparr>trace := trace st1 @ out, obe := (obe st1)(key_beam \<mapsto> done)\<rparr>))"

text \<open>
  The loop over the items of \<open>pols\<close>, in the dictionary's order; an exception ends it. A
  Python dictionary holds every key once: the list of items has distinct keys.
\<close>

fun sweep :: "(laser_beams, 'h) solver \<Rightarrow> real \<Rightarrow> 'h \<Rightarrow> ndarray \<Rightarrow> bool
    \<Rightarrow> (string \<times> vec3 \<times> vec3) list \<Rightarrow> 'h two_three_state
    \<Rightarrow> error option \<times> 'h two_three_state" where
  "sweep solve s hamiltonian v progress_bar [] st = (None, st)"
| "sweep solve s hamiltonian v progress_bar (item # rest) st =
     (case sweep_body solve s hamiltonian v progress_bar item st of
        (Some e, st') \<Rightarrow> (Some e, st')
      | (None, st') \<Rightarrow> sweep solve s hamiltonian v progress_bar rest st')"

text \<open>Lines 172-186: \<^verbatim>\<open>obe = {}\<close>, then the loop.\<close>

definition forces_cell :: "(laser_beams, 'h) solver \<Rightarrow> real \<Rightarrow> 'h \<Rightarrow> ndarray \<Rightarrow> bool
    \<Rightarrow> (string \<times> vec3 \<times> vec3) list \<Rightarrow> 'h two_three_state
    \<Rightarrow> error option \<times> 'h two_three_state" where
  "forces_cell solve s hamiltonian v progress_bar pols st =
     sweep solve s hamiltonian v progress_bar pols (st\<lparr>obe := Map.empty\<rparr>)"

text \<open>The dictionary of line 138: one polarization pair under one label.\<close>

definition sigma_label :: string where
  "sigma_label = [CHR ''$'', CHR 0x5C] @ ''sigma^+'' @ [CHR 0x5C] @ ''sigma^-$''"

definition pols :: "(string \<times> vec3 \<times> vec3) list" where
  "pols = [(sigma_label, ((0, 0, 1), (1, 0, 0)))]"

text \<open>The cell as the notebook has it: \<^verbatim>\<open>s = 1.0\<close>, its own velocities and \<open>pols\<close>.\<close>

definition two_three_run :: "(laser_beams, 'h) solver \<Rightarrow> 'h \<Rightarrow> 'h two_three_state
    \<Rightarrow> error option \<times> 'h two_three_state" where
  "two_three_run solve hamiltonian st =
     forces_cell solve 1.0 hamiltonian two_three_v True pols st"

section \<open>Properties of objects and example inputs\<close>

text \<open>An object without magnetic field: the constant zero field, magnetic forces off.\<close>

definition field_free :: "('b, 'h) trap \<Rightarrow> bool" where
  "field_free t \<longleftrightarrow> obj_magField t = constantMagneticField (0, 0, 0) \<and> \<not> include_mag_forces t"

text \<open>Concrete material for the examples below.\<close>

definition still_solver :: "('b, 'h) solver" where
  "still_solver t kwargs r u = Inr (0, 0, 0)"

definition failing_solver :: "('b, 'h) solver" where
  "failing_solver t kwargs r u = Inl (LibraryError ''no convergence'')"

definition fresh_part_000 :: "(unit, unit) part_000_state" where
  "fresh_part_000 = \<lparr>trace = [], trap_D2 = None, Fz_D2 = None\<rparr>"

definition fresh_two_three :: "unit two_three_state" where
  "fresh_two_three = \<lparr>trace = [], obe = Map.empty\<rparr>"

text \<open>A solver that converges for spherical polarization coordinates only.\<close>

definition picky_solver :: "(laser_beams, 'h) solver" where
  "picky_solver t kwargs r u =
     (if list_all (\<lambda>b. pol_coord b = ''spherical'') (beams (obj_laserBeams t))
      then Inr (0, 0, 0) else Inl (LibraryError ''no convergence''))"

definition three_pols :: "(string \<times> vec3 \<times> vec3) list" where
  "three_pols =
     [(''sigma'', ((0, 0, 1), (1, 0, 0))),
      (''lin'', ((1, 0, 0), (1, 0, 0))),
      (''sigma2'', ((0, 1, 0), (0, 0, 1)))]"

text \<open>Small runs: two velocities, or a single grid point, under a solver that converges.\<close>

definition example_part_000 :: "error option \<times> (unit, unit) part_000_state" where
  "example_part_000 =
     force_cell still_solver ''obe'' () () (array [0.0]) (array [0.01, 0.5]) ''Fz'' True
       fresh_part_000"



text \<open>The same sweep under the solver that fails on the second polarization.\<close>

definition failing_two_three :: "error option \<times> unit two_three_state" where
  "failing_two_three =
     forces_cell picky_solver 1.0 () (array [0.01, 0.5]) True three_pols fresh_two_three"

definition failing_part_000 :: "error option \<times> (unit, unit) part_000_state" where
  "failing_part_000 =
     force_cell failing_solver ''obe'' () () (array [0.0]) (array [0.01, 0.5]) ''Fz'' True
       fresh_part_000"

text \<open>
  The scenario of section 8 of the specification: velocities \<^verbatim>\<open>[0.01, 0.5, 2.5]\<close>, position
  \<^verbatim>\<open>[0.0]\<close>, the label \<^verbatim>\<open>"default"\<close>; once through the cell of \<^verbatim>\<open>part_000\<close>, where the label
  names the profile, and once through the sweep of \<^verbatim>\<open>two_three_forces.ipynb\<close>, where it
  names the configuration.
\<close>

definition default_part_000 :: "error option \<times> (unit, unit) part_000_state" where
  "default_part_000 =
     force_cell still_solver ''obe'' () () (array [0.0]) (array [0.01, 0.5, 2.5]) ''default'' True
       fresh_part_000"

definition default_two_three :: "error option \<times> unit two_three_state" where
  "default_two_three =
     forces_cell still_solver 1.0 () (array [0.01, 0.5, 2.5]) True
       [(''default'', ((0, 0, 1), (1, 0, 0)))] fresh_two_three"

section \<open>Shapes of grids and of force arrays\<close>

lemma solve_points_length:
  "solve_points f ps = (Fs, None) \<Longrightarrow> length Fs = length ps"
  by (induction ps arbitrary: Fs) (auto split: sum.splits prod.splits)


lemma generate_force_profile_Inr:
  assumes "generate_force_profile solve t R V name kw pb = (Inr d, out)"
  shows "\<exists>Fs. solve_points (solve t kw) (grid_pairs (R, V)) = (Fs, None) \<and> same_shape R V
           \<and> d = t\<lparr>profile := (profile t)(name \<mapsto>
                     \<lparr>profile_R = R, profile_V = V,
                      profile_F = \<lparr>shape = 3 # grid_shape R,
                                   data = map fst Fs @ map (fst \<circ> snd) Fs
                                          @ map (snd \<circ> snd) Fs\<rparr>\<rparr>)\<rparr>
           \<and> out = Evaluated t R V name #
                    (if pb then map Progress [1..<Suc (length Fs)] else [])"
  using assms
  by (auto simp: generate_force_profile_def Let_def split: if_splits prod.splits option.splits)

lemma generate_force_profile_shape:
  assumes "generate_force_profile solve t R V name kw pb = (Inr d, out)"
  shows "\<exists>p. profile d name = Some p \<and> shape (profile_F p) = 3 # grid_shape R
           \<and> length (data (profile_F p)) = 3 * length (grid_pairs (R, V))"
proof -
  from generate_force_profile_Inr[OF assms] obtain Fs where
    Fs: "solve_points (solve t kw) (grid_pairs (R, V)) = (Fs, None)" and
    d: "d = t\<lparr>profile := (profile t)(name \<mapsto>
                     \<lparr>profile_R = R, profile_V = V,
                      profile_F = \<lparr>shape = 3 # grid_shape R,
                                   data = map fst Fs @ map (fst \<circ> snd) Fs
                                          @ map (snd \<circ> snd) Fs\<rparr>\<rparr>)\<rparr>"
    by blast
  from solve_points_length[OF Fs] d show ?thesis by simp
qed

lemma part_000_grid_shape:
  "grid_shape (fst (part_000_grid x v)) = [length (data v), length (data x)]"
  by (simp add: part_000_grid_def meshgrid_def Let_def grid_shape_def zeros_def)

lemma length_concat_replicate: "length (concat (replicate n xs)) = n * length xs"
  by (induction n) auto

lemma length_concat_map_replicate: "length (concat (map (replicate n) ys)) = length ys * n"
  by (induction ys) auto

lemma part_000_grid_pairs_length:
  "length (grid_pairs (part_000_grid x v)) = length (data x) * length (data v)"
  by (simp add: part_000_grid_def meshgrid_def Let_def grid_pairs_def points_def zeros_def
      length_concat_replicate length_concat_map_replicate mult.commute)


lemma two_three_grid_shape: "grid_shape (fst (two_three_grid v)) = shape v"
  by (simp add: two_three_grid_def grid_shape_def zeros_def)

lemma two_three_grid_same_shape:
  "same_shape (fst (two_three_grid v)) (snd (two_three_grid v))"
  by (simp add: two_three_grid_def same_shape_def zeros_def)

lemma two_three_grid_pairs_length:
  "length (grid_pairs (two_three_grid (array vs))) = length vs"
  by (simp add: two_three_grid_def grid_pairs_def points_def zeros_def array_def)

lemma getitem_force:
  "getitem \<lparr>shape = 3 # sh, data = ds\<rparr> 2
     = Inr \<lparr>shape = sh, data = take (prod_list sh) (drop (2 * prod_list sh) ds)\<rparr>"
  by (simp add: getitem_def)

lemma force_cell_None:
  assumes "force_cell solve eq lb ham x v name pb st = (None, st')"
  shows "\<exists>d out p Fz. generate_force_profile solve
             (new_trap eq lb ham)
             (fst (part_000_grid x v)) (snd (part_000_grid x v)) name [] pb = (Inr d, out)
           \<and> trap_D2 st' = Some d \<and> profile d name = Some p
           \<and> getitem (profile_F p) 2 = Inr Fz \<and> Fz_D2 st' = Some Fz"
  using assms unfolding force_cell_def Let_def
  by (auto split: prod.splits sum.splits option.splits)

lemma force_cell_shape:
  assumes "fst (force_cell solve eq lb ham x v name pb st) = None"
  shows "\<exists>F. stored_force (trap_D2 (snd (force_cell solve eq lb ham x v name pb st))) name = Some F
           \<and> shape F = [3, length (data v), length (data x)]
           \<and> length (data F) = 3 * (length (data x) * length (data v))"
proof -
  obtain st' where r: "force_cell solve eq lb ham x v name pb st = (None, st')"
    using assms by (cases "force_cell solve eq lb ham x v name pb st") auto
  from force_cell_None[OF r] obtain d out where
    g: "generate_force_profile solve
             (new_trap eq lb ham)
             (fst (part_000_grid x v)) (snd (part_000_grid x v)) name [] pb = (Inr d, out)"
    and t: "trap_D2 st' = Some d"
    by blast
  from generate_force_profile_shape[OF g] obtain p where
    "profile d name = Some p" "shape (profile_F p) = 3 # grid_shape (fst (part_000_grid x v))"
    "length (data (profile_F p)) = 3 * length (grid_pairs (fst (part_000_grid x v), snd (part_000_grid x v)))"
    by blast
  with t r show ?thesis
    by (simp add: stored_force_def part_000_grid_shape part_000_grid_pairs_length)
qed




section \<open>What a sweep leaves behind\<close>

lemma constructed_append: "constructed (xs @ ys) = constructed xs @ constructed ys"
  by (induction xs rule: constructed.induct) auto

lemma stores_append: "stores (xs @ ys) = stores xs @ stores ys"
  by (induction xs rule: stores.induct) auto

lemma evaluations_append: "evaluations (xs @ ys) = evaluations xs @ evaluations ys"
  by (induction xs rule: evaluations.induct) auto

lemma projections_Progress:
  "constructed (map Progress ns) = []" "stores (map Progress ns) = []"
  "evaluations (map Progress ns) = []"
  by (induction ns) auto

lemma generate_force_profile_out:
  "\<exists>ns. snd (generate_force_profile solve t R V name kw pb) = Evaluated t R V name # map Progress ns"
proof (cases "same_shape R V")
  case False
  then have "snd (generate_force_profile solve t R V name kw pb) = Evaluated t R V name # map Progress []"
    by (simp add: generate_force_profile_def)
  then show ?thesis by blast
next
  case True
  obtain Fs err where sp: "solve_points (solve t kw) (grid_pairs (R, V)) = (Fs, err)"
    by (cases "solve_points (solve t kw) (grid_pairs (R, V))")
  have "snd (generate_force_profile solve t R V name kw pb) =
      Evaluated t R V name # map Progress (if pb then [1..<Suc (length Fs)] else [])"
    using True sp by (simp add: generate_force_profile_def Let_def split: option.splits)
  then show ?thesis by blast
qed

lemma generate_force_profile_projections:
  "constructed (snd (generate_force_profile solve t R V name kw pb)) = []"
  "stores (snd (generate_force_profile solve t R V name kw pb)) = []"
  "evaluations (snd (generate_force_profile solve t R V name kw pb)) = [(t, R, V, name)]"
  using generate_force_profile_out[of solve t R V name kw pb]
  by (auto simp: projections_Progress)

lemma sweep_body_fst:
  "fst (sweep_body solve s ham v pb item st) =
     (case evaluate_one solve s ham v pb (snd item) of Inl e \<Rightarrow> Some e | Inr d \<Rightarrow> None)"
  by (simp add: sweep_body_def evaluate_one_def Let_def split: prod.splits sum.splits)

lemma sweep_body_obe:
  "obe (snd (sweep_body solve s ham v pb item st)) =
     (obe st)(fst item \<mapsto>
        (case evaluate_one solve s ham v pb (snd item) of
           Inl e \<Rightarrow> new_obe s ham (snd item) | Inr d \<Rightarrow> d))"
  by (simp add: sweep_body_def evaluate_one_def Let_def split: prod.splits sum.splits)

lemma sweep_body_trace:
  "trace (snd (sweep_body solve s ham v pb item st)) =
     trace st @ [Constructed (new_obe s ham (snd item)), Stored (fst item)]
       @ snd (generate_force_profile solve (new_obe s ham (snd item))
            (fst (two_three_grid v)) (snd (two_three_grid v)) ''molasses'' molasses_kwargs pb)"
  by (simp add: sweep_body_def Let_def split: prod.splits sum.splits)

lemma sweep_body_projections:
  "constructed (trace (snd (sweep_body solve s ham v pb item st))) =
     constructed (trace st) @ [new_obe s ham (snd item)]"
  "stores (trace (snd (sweep_body solve s ham v pb item st))) = stores (trace st) @ [fst item]"
  "evaluations (trace (snd (sweep_body solve s ham v pb item st))) =
     evaluations (trace st) @
       [(new_obe s ham (snd item), fst (two_three_grid v), snd (two_three_grid v), ''molasses'')]"
  by (simp_all add: sweep_body_trace constructed_append stores_append evaluations_append
      generate_force_profile_projections)

text \<open>A sweep that returns normally has gone through every item.\<close>

lemma sweep_None:
  "fst (sweep solve s ham v pb ps st) = None \<Longrightarrow>
     (\<forall>item \<in> set ps. \<exists>d. evaluate_one solve s ham v pb (snd item) = Inr d)
     \<and> constructed (trace (snd (sweep solve s ham v pb ps st))) =
         constructed (trace st) @ map (\<lambda>item. new_obe s ham (snd item)) ps
     \<and> stores (trace (snd (sweep solve s ham v pb ps st))) = stores (trace st) @ map fst ps
     \<and> evaluations (trace (snd (sweep solve s ham v pb ps st))) =
         evaluations (trace st) @
           map (\<lambda>item. (new_obe s ham (snd item), fst (two_three_grid v),
                         snd (two_three_grid v), ''molasses'')) ps"
proof (induction ps arbitrary: st)
  case Nil
  then show ?case by simp
next
  case (Cons item rest)
  obtain r st1 where b: "sweep_body solve s ham v pb item st = (r, st1)"
    by (cases "sweep_body solve s ham v pb item st")
  with Cons.prems have r: "r = None" by (cases r) auto
  with b have sw: "sweep solve s ham v pb (item # rest) st = sweep solve s ham v pb rest st1"
    by simp
  from b r sweep_body_fst[of solve s ham v pb item st]
  have ev: "\<exists>d. evaluate_one solve s ham v pb (snd item) = Inr d"
    by (auto split: sum.splits)
  from Cons.prems sw have "fst (sweep solve s ham v pb rest st1) = None" by simp
  from Cons.IH[OF this] ev sw sweep_body_projections[of solve s ham v pb item st] b
  show ?case by simp
qed

lemma sweep_None_obe:
  assumes "fst (sweep solve s ham v pb ps st) = None"
  shows "obe (snd (sweep solve s ham v pb ps st)) k =
     (case map_of (rev ps) k of
        None \<Rightarrow> obe st k
      | Some pl \<Rightarrow> (case evaluate_one solve s ham v pb pl of Inr d \<Rightarrow> Some d | Inl e \<Rightarrow> None))"
  using assms
proof (induction ps arbitrary: st)
  case Nil
  then show ?case by simp
next
  case (Cons item rest)
  obtain r st1 where b: "sweep_body solve s ham v pb item st = (r, st1)"
    by (cases "sweep_body solve s ham v pb item st")
  with Cons.prems have r: "r = None" by (cases r) auto
  with b have sw: "sweep solve s ham v pb (item # rest) st = sweep solve s ham v pb rest st1"
    by simp
  from b r sweep_body_fst[of solve s ham v pb item st]
  obtain d where ev: "evaluate_one solve s ham v pb (snd item) = Inr d"
    by (auto split: sum.splits)
  from b sweep_body_obe[of solve s ham v pb item st] ev
  have o1: "obe st1 = (obe st)(fst item \<mapsto> d)" by simp
  from Cons.prems sw have "fst (sweep solve s ham v pb rest st1) = None" by simp
  from Cons.IH[OF this] sw o1 ev show ?case
    by (cases item) (auto simp: map_add_def split: option.splits)
qed

section \<open>Failure, independence of the start state, fields\<close>

lemma sweep_append:
  "sweep solve s ham v pb (pre @ rest) st =
     (case sweep solve s ham v pb pre st of
        (Some e, st1) \<Rightarrow> (Some e, st1)
      | (None, st1) \<Rightarrow> sweep solve s ham v pb rest st1)"
  by (induction pre arbitrary: st) (auto split: prod.splits option.splits)

lemma sweep_succeeds:
  "(\<forall>item \<in> set ps. \<exists>d. evaluate_one solve s ham v pb (snd item) = Inr d) \<Longrightarrow>
     fst (sweep solve s ham v pb ps st) = None"
proof (induction ps arbitrary: st)
  case Nil
  then show ?case by simp
next
  case (Cons item rest)
  obtain r st1 where b: "sweep_body solve s ham v pb item st = (r, st1)"
    by (cases "sweep_body solve s ham v pb item st")
  from Cons.prems obtain d where "evaluate_one solve s ham v pb (snd item) = Inr d" by auto
  with b sweep_body_fst[of solve s ham v pb item st] have "r = None" by simp
  with b Cons show ?case by simp
qed

lemma sweep_fails_at:
  assumes "evaluate_one solve s ham v pb (snd item) = Inl e"
  shows "sweep solve s ham v pb (item # post) st = (Some e, snd (sweep_body solve s ham v pb item st))"
proof -
  obtain r st1 where b: "sweep_body solve s ham v pb item st = (r, st1)"
    by (cases "sweep_body solve s ham v pb item st")
  with assms sweep_body_fst[of solve s ham v pb item st] have "r = Some e" by simp
  with b show ?thesis by simp
qed

lemma sweep_obe_cong:
  "obe st1 = obe st2 \<Longrightarrow>
     (\<And>pl. evaluate_one solve s ham v pb1 pl = evaluate_one solve s ham v pb2 pl) \<Longrightarrow>
     fst (sweep solve s ham v pb1 ps st1) = fst (sweep solve s ham v pb2 ps st2)
     \<and> obe (snd (sweep solve s ham v pb1 ps st1)) = obe (snd (sweep solve s ham v pb2 ps st2))"
proof (induction ps arbitrary: st1 st2)
  case Nil
  then show ?case by simp
next
  case (Cons item rest)
  obtain r1 a1 where b1: "sweep_body solve s ham v pb1 item st1 = (r1, a1)"
    by (cases "sweep_body solve s ham v pb1 item st1")
  obtain r2 a2 where b2: "sweep_body solve s ham v pb2 item st2 = (r2, a2)"
    by (cases "sweep_body solve s ham v pb2 item st2")
  from b1 b2 sweep_body_fst[of solve s ham v pb1 item st1]
    sweep_body_fst[of solve s ham v pb2 item st2] Cons.prems(2)
  have r: "r1 = r2" by simp
  from b1 b2 sweep_body_obe[of solve s ham v pb1 item st1]
    sweep_body_obe[of solve s ham v pb2 item st2] Cons.prems
  have o: "obe a1 = obe a2" by simp
  show ?case
  proof (cases r1)
    case None
    with r b1 b2 Cons.IH[OF o Cons.prems(2)] show ?thesis by simp
  next
    case (Some e)
    with r have "r2 = Some e" by simp
    with Some b1 b2 o show ?thesis by simp
  qed
qed

lemma generate_force_profile_flag:
  "fst (generate_force_profile solve t R V name kw True) =
   fst (generate_force_profile solve t R V name kw False)"
  by (simp add: generate_force_profile_def Let_def split: prod.splits option.splits)

lemma evaluate_one_flag:
  "evaluate_one solve s ham v True pl = evaluate_one solve s ham v False pl"
  by (simp add: evaluate_one_def generate_force_profile_flag)

lemma generate_force_profile_keeps:
  assumes "generate_force_profile solve t R V name kw pb = (Inr d, out)"
  shows "obj_magField d = obj_magField t" "include_mag_forces d = include_mag_forces t"
    "obj_laserBeams d = obj_laserBeams t" "obj_hamiltonian d = obj_hamiltonian t"
  using generate_force_profile_Inr[OF assms] by auto

lemma new_obe_fields:
  "obj_magField (new_obe s ham pl) = constantMagneticField (0, 0, 0)"
  "\<not> include_mag_forces (new_obe s ham pl)"
  by (simp_all add: new_obe_def pylcp_obe_def magField_def)

lemma evaluate_one_fields:
  assumes "evaluate_one solve s ham v pb pl = Inr d"
  shows "obj_magField d = constantMagneticField (0, 0, 0)" "\<not> include_mag_forces d"
proof -
  obtain out where g: "generate_force_profile solve (new_obe s ham pl)
            (fst (two_three_grid v)) (snd (two_three_grid v)) ''molasses'' molasses_kwargs pb
            = (Inr d, out)"
    using assms unfolding evaluate_one_def
    by (cases "generate_force_profile solve (new_obe s ham pl)
            (fst (two_three_grid v)) (snd (two_three_grid v)) ''molasses'' molasses_kwargs pb") auto
  from generate_force_profile_keeps[OF g] new_obe_fields[of s ham pl]
  show "obj_magField d = constantMagneticField (0, 0, 0)" "\<not> include_mag_forces d"
    by simp_all
qed

lemma sweep_constructed:
  "\<exists>n. n \<le> length ps \<and> (ps \<noteq> [] \<longrightarrow> 0 < n) \<and>
     constructed (trace (snd (sweep solve s ham v pb ps st))) =
       constructed (trace st) @ map (\<lambda>item. new_obe s ham (snd item)) (take n ps)"
proof (induction ps arbitrary: st)
  case Nil
  then show ?case by simp
next
  case (Cons item rest)
  obtain r st1 where b: "sweep_body solve s ham v pb item st = (r, st1)"
    by (cases "sweep_body solve s ham v pb item st")
  from b sweep_body_projections(1)[of solve s ham v pb item st]
  have c1: "constructed (trace st1) = constructed (trace st) @ [new_obe s ham (snd item)]"
    by simp
  show ?case
  proof (cases r)
    case None
    from Cons.IH[of st1] obtain n where n: "n \<le> length rest"
      "constructed (trace (snd (sweep solve s ham v pb rest st1))) =
         constructed (trace st1) @ map (\<lambda>item. new_obe s ham (snd item)) (take n rest)"
      by blast
    with None b c1 have "Suc n \<le> length (item # rest) \<and> (item # rest \<noteq> [] \<longrightarrow> 0 < Suc n) \<and>
       constructed (trace (snd (sweep solve s ham v pb (item # rest) st))) =
       constructed (trace st) @ map (\<lambda>item. new_obe s ham (snd item)) (take (Suc n) (item # rest))"
      by simp
    then show ?thesis by blast
  next
    case (Some e)
    with b c1 have "Suc 0 \<le> length (item # rest) \<and> (item # rest \<noteq> [] \<longrightarrow> 0 < Suc 0) \<and>
       constructed (trace (snd (sweep solve s ham v pb (item # rest) st))) =
       constructed (trace st) @ map (\<lambda>item. new_obe s ham (snd item)) (take (Suc 0) (item # rest))"
      by simp
    then show ?thesis by blast
  qed
qed

lemma sweep_obe_fields:
  "obe (snd (sweep solve s ham v pb ps st)) k = Some t \<Longrightarrow>
     obe st k = Some t \<or>
     (obj_magField t = constantMagneticField (0, 0, 0) \<and> \<not> include_mag_forces t)"
proof (induction ps arbitrary: st)
  case Nil
  then show ?case by simp
next
  case (Cons item rest)
  obtain r st1 where b: "sweep_body solve s ham v pb item st = (r, st1)"
    by (cases "sweep_body solve s ham v pb item st")
  have step: "obe st1 k = Some t \<Longrightarrow> obe st k = Some t \<or>
     (obj_magField t = constantMagneticField (0, 0, 0) \<and> \<not> include_mag_forces t)"
    using b sweep_body_obe[of solve s ham v pb item st]
      evaluate_one_fields[of solve s ham v pb "snd item"] new_obe_fields[of s ham "snd item"]
    by (auto split: if_splits sum.splits)
  show ?case
  proof (cases r)
    case None
    with b Cons.prems have "obe (snd (sweep solve s ham v pb rest st1)) k = Some t" by simp
    from Cons.IH[OF this] step show ?thesis by blast
  next
    case (Some e)
    with b Cons.prems have "obe st1 k = Some t" by simp
    with step show ?thesis by blast
  qed
qed

section \<open>Slots of the result mapping\<close>

lemma evaluate_one_shape:
  assumes "evaluate_one solve s ham (array vs) pb pl = Inr d"
  shows "\<exists>F. stored_force (Some d) ''molasses'' = Some F \<and> shape F = [3, length vs]
           \<and> length (data F) = 3 * length vs"
proof -
  let ?g = "two_three_grid (array vs)"
  obtain out where g: "generate_force_profile solve (new_obe s ham pl)
            (fst ?g) (snd ?g) ''molasses'' molasses_kwargs pb = (Inr d, out)"
    using assms unfolding evaluate_one_def
    by (cases "generate_force_profile solve (new_obe s ham pl)
            (fst ?g) (snd ?g) ''molasses'' molasses_kwargs pb") auto
  from generate_force_profile_shape[OF g] obtain p where
    "profile d ''molasses'' = Some p" "shape (profile_F p) = 3 # grid_shape (fst ?g)"
    "length (data (profile_F p)) = 3 * length (grid_pairs (fst ?g, snd ?g))"
    by blast
  then show ?thesis
    by (simp add: stored_force_def two_three_grid_shape two_three_grid_pairs_length)
       (simp add: array_def)
qed

lemma map_of_rev_in:
  assumes "k \<in> fst ` set ps"
  shows "\<exists>pl. map_of (rev ps) k = Some pl \<and> (k, pl) \<in> set ps"
proof -
  from assms have "k \<in> fst ` set (rev ps)" by simp
  then obtain pl where "map_of (rev ps) k = Some pl"
    by (metis domD dom_map_of_conv_image_fst)
  moreover from this have "(k, pl) \<in> set ps"
    by (metis map_of_SomeD set_rev)
  ultimately show ?thesis by blast
qed

lemma forces_cell_slot:
  assumes "fst (forces_cell solve s ham v pb ps st) = None" and "key \<in> fst ` set ps"
  shows "\<exists>pl d. (key, pl) \<in> set ps \<and> evaluate_one solve s ham v pb pl = Inr d
           \<and> obe (snd (forces_cell solve s ham v pb ps st)) key = Some d"
proof -
  from assms(1) have ok: "fst (sweep solve s ham v pb ps (st\<lparr>obe := Map.empty\<rparr>)) = None"
    by (simp add: forces_cell_def)
  from map_of_rev_in[OF assms(2)] obtain pl where
    pl: "map_of (rev ps) key = Some pl" "(key, pl) \<in> set ps" by blast
  from sweep_None[OF ok] pl(2) obtain d where d: "evaluate_one solve s ham v pb pl = Inr d"
    by force
  from sweep_None_obe[OF ok, of key] pl(1) d
  have "obe (snd (forces_cell solve s ham v pb ps st)) key = Some d"
    by (simp add: forces_cell_def)
  with pl(2) d show ?thesis by blast
qed

lemma forces_cell_dom:
  assumes "fst (forces_cell solve s ham v pb ps st) = None"
  shows "dom (obe (snd (forces_cell solve s ham v pb ps st))) = fst ` set ps"
proof -
  from assms have ok: "fst (sweep solve s ham v pb ps (st\<lparr>obe := Map.empty\<rparr>)) = None"
    by (simp add: forces_cell_def)
  show ?thesis
  proof (rule set_eqI)
    fix k
    show "k \<in> dom (obe (snd (forces_cell solve s ham v pb ps st))) \<longleftrightarrow> k \<in> fst ` set ps"
    proof (cases "k \<in> fst ` set ps")
      case True
      with forces_cell_slot[OF assms True] show ?thesis by auto
    next
      case False
      then have "k \<notin> fst ` set (rev ps)" by simp
      then have "map_of (rev ps) k = None"
        by (metis map_of_eq_None_iff)
      with sweep_None_obe[OF ok, of k] False show ?thesis
        by (auto simp: forces_cell_def)
    qed
  qed
qed

section \<open>Unfolding concrete runs\<close>

lemmas run_defs = force_cell_def new_trap_def forces_cell_def sweep_body_def still_solver_def
  part_000_grid_def two_three_grid_def meshgrid_def array_def zeros_def
  generate_force_profile_def Let_def same_shape_def grid_pairs_def points_def
  pylcp_obe_def pylcp_rateeq_def grid_shape_def getitem_def new_obe_def stored_force_def

section \<open>The cell of part_000\<close>

lemma force_cell_raised:
  assumes "generate_force_profile solve (new_trap eq lb ham)
             (fst (part_000_grid x v)) (snd (part_000_grid x v)) name [] pb = (Inl e, out)"
  shows "fst (force_cell solve eq lb ham x v name pb st) = Some e"
    and "trap_D2 (snd (force_cell solve eq lb ham x v name pb st)) = Some (new_trap eq lb ham)"
    and "Fz_D2 (snd (force_cell solve eq lb ham x v name pb st)) = Fz_D2 st"
    and "trace (snd (force_cell solve eq lb ham x v name pb st)) =
           trace st @ [Constructed (new_trap eq lb ham), Stored ''trap_D2''] @ out"
  using assms by (simp_all add: force_cell_def Let_def)

lemma force_cell_done:
  assumes "generate_force_profile solve (new_trap eq lb ham)
             (fst (part_000_grid x v)) (snd (part_000_grid x v)) name [] pb = (Inr d, out)"
  shows "fst (force_cell solve eq lb ham x v name pb st) = None"
    and "trap_D2 (snd (force_cell solve eq lb ham x v name pb st)) = Some d"
    and "\<exists>p. profile d name = Some p
           \<and> Inr (the (Fz_D2 (snd (force_cell solve eq lb ham x v name pb st))))
               = getitem (profile_F p) 2
           \<and> Fz_D2 (snd (force_cell solve eq lb ham x v name pb st)) \<noteq> None"
    and "trace (snd (force_cell solve eq lb ham x v name pb st)) =
           trace st @ [Constructed (new_trap eq lb ham), Stored ''trap_D2''] @ out
             @ [Stored ''Fz_D2'']"
proof -
  from generate_force_profile_shape[OF assms] obtain p where
    p: "profile d name = Some p" "shape (profile_F p) = 3 # grid_shape (fst (part_000_grid x v))"
    by blast
  obtain sh ds where pf: "profile_F p = \<lparr>shape = 3 # sh, data = ds\<rparr>"
    using p(2) by (cases "profile_F p") auto
  show "fst (force_cell solve eq lb ham x v name pb st) = None"
    and "trap_D2 (snd (force_cell solve eq lb ham x v name pb st)) = Some d"
    and "trace (snd (force_cell solve eq lb ham x v name pb st)) =
           trace st @ [Constructed (new_trap eq lb ham), Stored ''trap_D2''] @ out
             @ [Stored ''Fz_D2'']"
    using assms p(1) pf by (simp_all add: force_cell_def Let_def getitem_force)
  show "\<exists>p. profile d name = Some p
           \<and> Inr (the (Fz_D2 (snd (force_cell solve eq lb ham x v name pb st))))
               = getitem (profile_F p) 2
           \<and> Fz_D2 (snd (force_cell solve eq lb ham x v name pb st)) \<noteq> None"
    using assms p(1) pf by (simp add: force_cell_def Let_def getitem_force)
qed

lemma force_cell_projections:
  "constructed (trace (snd (force_cell solve eq lb ham x v name pb st))) =
     constructed (trace st) @ [new_trap eq lb ham]"
  "evaluations (trace (snd (force_cell solve eq lb ham x v name pb st))) =
     evaluations (trace st) @
       [(new_trap eq lb ham, fst (part_000_grid x v), snd (part_000_grid x v), name)]"
proof -
  let ?g = "generate_force_profile solve (new_trap eq lb ham)
             (fst (part_000_grid x v)) (snd (part_000_grid x v)) name [] pb"
  obtain r out where g: "?g = (r, out)" by (cases ?g)
  from generate_force_profile_projections[of solve "new_trap eq lb ham"
      "fst (part_000_grid x v)" "snd (part_000_grid x v)" name "[]" pb] g
  have out: "constructed out = []" "evaluations out = [(new_trap eq lb ham,
      fst (part_000_grid x v), snd (part_000_grid x v), name)]"
    by simp_all
  show "constructed (trace (snd (force_cell solve eq lb ham x v name pb st))) =
     constructed (trace st) @ [new_trap eq lb ham]"
    using g out force_cell_raised(4)[of solve eq lb ham x v name pb _ out st]
      force_cell_done(4)[of solve eq lb ham x v name pb _ out st]
    by (cases r) (simp_all add: constructed_append)
  show "evaluations (trace (snd (force_cell solve eq lb ham x v name pb st))) =
     evaluations (trace st) @
       [(new_trap eq lb ham, fst (part_000_grid x v), snd (part_000_grid x v), name)]"
    using g out force_cell_raised(4)[of solve eq lb ham x v name pb _ out st]
      force_cell_done(4)[of solve eq lb ham x v name pb _ out st]
    by (cases r) (simp_all add: evaluations_append)
qed

lemma new_trap_field_free: "field_free (new_trap eq lb ham)"
  by (simp add: field_free_def new_trap_def pylcp_rateeq_def pylcp_obe_def magField_def)

lemma new_obe_field_free: "field_free (new_obe s ham pl)"
  by (simp add: field_free_def new_obe_fields)

lemma force_cell_trap_field_free:
  assumes "trap_D2 (snd (force_cell solve eq lb ham x v name pb st)) = Some t"
  shows "field_free t"
proof -
  let ?g = "generate_force_profile solve (new_trap eq lb ham)
             (fst (part_000_grid x v)) (snd (part_000_grid x v)) name [] pb"
  obtain r out where g: "?g = (r, out)" by (cases ?g)
  show ?thesis
  proof (cases r)
    case (Inl e)
    with g force_cell_raised(2)[of solve eq lb ham x v name pb e out st] assms
    show ?thesis by (simp add: new_trap_field_free)
  next
    case (Inr d)
    with g force_cell_done(2)[of solve eq lb ham x v name pb d out st] assms
    have "t = d" by simp
    with Inr g generate_force_profile_keeps(1,2)[of solve "new_trap eq lb ham" _ _ name "[]" pb d out]
      new_trap_field_free[of eq lb ham]
    show ?thesis by (simp add: field_free_def)
  qed
qed

lemma force_cell_cong:
  assumes "fst (generate_force_profile solve (new_trap eq lb ham)
             (fst (part_000_grid x v)) (snd (part_000_grid x v)) name [] pb1)
         = fst (generate_force_profile solve (new_trap eq lb ham)
             (fst (part_000_grid x v)) (snd (part_000_grid x v)) name [] pb2)"
  shows "fst (force_cell solve eq lb ham x v name pb1 st1)
           = fst (force_cell solve eq lb ham x v name pb2 st2)"
    and "trap_D2 (snd (force_cell solve eq lb ham x v name pb1 st1))
           = trap_D2 (snd (force_cell solve eq lb ham x v name pb2 st2))"
    and "fst (force_cell solve eq lb ham x v name pb1 st1) = None \<or> Fz_D2 st1 = Fz_D2 st2 \<Longrightarrow>
         Fz_D2 (snd (force_cell solve eq lb ham x v name pb1 st1))
           = Fz_D2 (snd (force_cell solve eq lb ham x v name pb2 st2))"
proof -
  let ?g1 = "generate_force_profile solve (new_trap eq lb ham)
             (fst (part_000_grid x v)) (snd (part_000_grid x v)) name [] pb1"
  let ?g2 = "generate_force_profile solve (new_trap eq lb ham)
             (fst (part_000_grid x v)) (snd (part_000_grid x v)) name [] pb2"
  obtain r out1 where g1: "?g1 = (r, out1)" by (cases ?g1)
  with assms obtain out2 where g2: "?g2 = (r, out2)" by (cases ?g2) auto
  show "fst (force_cell solve eq lb ham x v name pb1 st1)
           = fst (force_cell solve eq lb ham x v name pb2 st2)"
    using g1 g2 by (cases r) (simp_all add: force_cell_raised(1) force_cell_done(1))
  show "trap_D2 (snd (force_cell solve eq lb ham x v name pb1 st1))
           = trap_D2 (snd (force_cell solve eq lb ham x v name pb2 st2))"
    using g1 g2 by (cases r) (simp_all add: force_cell_raised(2) force_cell_done(2))
  show "Fz_D2 (snd (force_cell solve eq lb ham x v name pb1 st1))
           = Fz_D2 (snd (force_cell solve eq lb ham x v name pb2 st2))"
    if h: "fst (force_cell solve eq lb ham x v name pb1 st1) = None \<or> Fz_D2 st1 = Fz_D2 st2"
  proof (cases r)
    case (Inl e)
    with g1 g2 h show ?thesis by (simp add: force_cell_raised(1,3))
  next
    case (Inr d)
    from force_cell_done(3)[of solve eq lb ham x v name pb1 d out1 st1] g1 Inr
    obtain p where p: "profile d name = Some p"
      "Inr (the (Fz_D2 (snd (force_cell solve eq lb ham x v name pb1 st1)))) = getitem (profile_F p) 2"
      "Fz_D2 (snd (force_cell solve eq lb ham x v name pb1 st1)) \<noteq> None"
      by auto
    from force_cell_done(3)[of solve eq lb ham x v name pb2 d out2 st2] g2 Inr p(1)
    have q: "Inr (the (Fz_D2 (snd (force_cell solve eq lb ham x v name pb2 st2)))) = getitem (profile_F p) 2"
      "Fz_D2 (snd (force_cell solve eq lb ham x v name pb2 st2)) \<noteq> None"
      by auto
    from p(2) q(1) have "the (Fz_D2 (snd (force_cell solve eq lb ham x v name pb1 st1)))
       = the (Fz_D2 (snd (force_cell solve eq lb ham x v name pb2 st2)))"
      by (metis sum.inject(2))
    with p(3) q(2) show ?thesis by (metis option.expand)
  qed
qed

lemma force_cell_profile_dom:
  assumes "fst (force_cell solve eq lb ham x v name pb st) = None"
  shows "\<exists>t. trap_D2 (snd (force_cell solve eq lb ham x v name pb st)) = Some t
           \<and> dom (profile t) = {name}"
proof -
  obtain st' where r: "force_cell solve eq lb ham x v name pb st = (None, st')"
    using assms by (cases "force_cell solve eq lb ham x v name pb st") auto
  from force_cell_None[OF r] obtain d out where
    g: "generate_force_profile solve (new_trap eq lb ham)
             (fst (part_000_grid x v)) (snd (part_000_grid x v)) name [] pb = (Inr d, out)"
    and t: "trap_D2 st' = Some d"
    by blast
  have "profile (new_trap eq lb ham) = Map.empty"
    by (simp add: new_trap_def pylcp_rateeq_def pylcp_obe_def)
  with generate_force_profile_Inr[OF g] have "dom (profile d) = {name}"
    by (auto split: if_splits)
  with t r show ?thesis by simp
qed

section \<open>Values of the velocity grids\<close>

lemma ascending_less: "ascending (a # xs) \<Longrightarrow> x \<in> set xs \<Longrightarrow> a < x"
proof (induction xs arbitrary: a)
  case Nil
  then show ?case by simp
next
  case (Cons b xs)
  then show ?case by (cases "x = b") (auto intro: less_trans)
qed

lemma ascending_tail: "ascending (a # xs) \<Longrightarrow> ascending xs"
  by (cases xs) auto

lemma ascending_distinct: "ascending xs \<Longrightarrow> distinct xs"
proof (induction xs)
  case Nil
  then show ?case by simp
next
  case (Cons a xs)
  from ascending_less[OF Cons.prems] have "a \<notin> set xs" by auto
  with Cons.IH[OF ascending_tail[OF Cons.prems]] show ?case by simp
qed

lemma zip_replicate_left: "zip (replicate (length xs) a) xs = map (\<lambda>x. (a, x)) xs"
  by (induction xs) auto

lemma two_three_grid_pairs:
  "grid_pairs (two_three_grid (array vs)) = map (\<lambda>u. ((0, 0, 0), (0, 0, u))) vs"
  by (simp add: two_three_grid_def grid_pairs_def points_def zeros_def array_def
      zip_replicate_left zip_map2 zip_map1 zip_same_conv_map)

lemma two_three_v_array: "two_three_v = array (data two_three_v)"
  by (simp add: two_three_v_def concatenate_def array_def)

lemma two_three_v_ascending: "ascending (data two_three_v)"
  by code_simp

lemma two_three_pairs_distinct: "distinct (grid_pairs (two_three_grid two_three_v))"
proof -
  have "distinct (data two_three_v)"
    by (rule ascending_distinct[OF two_three_v_ascending])
  moreover have "inj_on (\<lambda>u::real. ((0::real, 0::real, 0::real), (0::real, 0::real, u))) (set (data two_three_v))"
    by (simp add: inj_on_def)
  ultimately have "distinct (map (\<lambda>u. ((0::real, 0::real, 0::real), (0::real, 0::real, u))) (data two_three_v))"
    by (simp add: distinct_map)
  then show ?thesis
    using two_three_grid_pairs[of "data two_three_v"] two_three_v_array by simp
qed

section \<open>The scenario of the specification\<close>

lemma default_scenario_part_000:
  assumes ok: "fst (force_cell solve eq lb ham (array [0.0]) (array [0.01, 0.5, 2.5]) ''default''
                     pb st) = None"
  shows "\<exists>t F. trap_D2 (snd (force_cell solve eq lb ham (array [0.0]) (array [0.01, 0.5, 2.5])
                               ''default'' pb st)) = Some t
          \<and> dom (profile t) = {''default''}
          \<and> stored_force (Some t) ''default'' = Some F \<and> shape F = [3, 3, 1]"
proof -
  from force_cell_profile_dom[OF ok] obtain t where
    t: "trap_D2 (snd (force_cell solve eq lb ham (array [0.0]) (array [0.01, 0.5, 2.5])
                               ''default'' pb st)) = Some t" "dom (profile t) = {''default''}"
    by blast
  from force_cell_shape[OF ok] obtain F where
    F: "stored_force (trap_D2 (snd (force_cell solve eq lb ham (array [0.0])
          (array [0.01, 0.5, 2.5]) ''default'' pb st))) ''default'' = Some F"
       "shape F = [3, length (data (array [0.01, 0.5, 2.5])), length (data (array [0.0]))]"
    by blast
  from F(2) have "shape F = [3, 3, 1]" by (simp add: array_def)
  with t F(1) show ?thesis by simp
qed

lemma default_scenario_two_three:
  assumes ok: "fst (forces_cell solve2 s ham2 (array [0.01, 0.5, 2.5]) pb [(''default'', pl)] st2)
                = None"
  shows "dom (obe (snd (forces_cell solve2 s ham2 (array [0.01, 0.5, 2.5]) pb [(''default'', pl)]
                       st2))) = {''default''}
      \<and> (\<exists>F. stored_force
                (obe (snd (forces_cell solve2 s ham2 (array [0.01, 0.5, 2.5]) pb
                             [(''default'', pl)] st2)) ''default'') ''molasses'' = Some F
            \<and> shape F = [3, 3])"
proof -
  have key: "''default'' \<in> fst ` set [(''default'', pl)]" by simp
  from forces_cell_dom[OF ok]
  have dm: "dom (obe (snd (forces_cell solve2 s ham2 (array [0.01, 0.5, 2.5]) pb
                     [(''default'', pl)] st2))) = {''default''}"
    by simp
  from forces_cell_slot[OF ok key] obtain pl' d where
    d: "(''default'', pl') \<in> set [(''default'', pl)]"
    "evaluate_one solve2 s ham2 (array [0.01, 0.5, 2.5]) pb pl' = Inr d"
    "obe (snd (forces_cell solve2 s ham2 (array [0.01, 0.5, 2.5]) pb [(''default'', pl)] st2))
       ''default'' = Some d"
    by blast
  from evaluate_one_shape[OF d(2)] obtain F where
    "stored_force (Some d) ''molasses'' = Some F" "shape F = [3, length [0.01, 0.5, 2.5::real]]"
    by blast
  with d(3) dm show ?thesis by simp
qed

section \<open>Traces and slots of a whole sweep\<close>

lemma forces_cell_trace_None:
  assumes "fst (forces_cell solve s ham v pb ps st) = None"
  shows "evaluations (trace (snd (forces_cell solve s ham v pb ps st))) =
           evaluations (trace st) @
             map (\<lambda>item. (new_obe s ham (snd item), fst (two_three_grid v),
                           snd (two_three_grid v), ''molasses'')) ps"
    and "stores (trace (snd (forces_cell solve s ham v pb ps st))) = stores (trace st) @ map fst ps"
    and "constructed (trace (snd (forces_cell solve s ham v pb ps st))) =
           constructed (trace st) @ map (\<lambda>item. new_obe s ham (snd item)) ps"
proof -
  from assms have ok: "fst (sweep solve s ham v pb ps (st\<lparr>obe := Map.empty\<rparr>)) = None"
    by (simp add: forces_cell_def)
  from sweep_None[OF ok]
  show "evaluations (trace (snd (forces_cell solve s ham v pb ps st))) =
           evaluations (trace st) @
             map (\<lambda>item. (new_obe s ham (snd item), fst (two_three_grid v),
                           snd (two_three_grid v), ''molasses'')) ps"
    and "stores (trace (snd (forces_cell solve s ham v pb ps st))) = stores (trace st) @ map fst ps"
    and "constructed (trace (snd (forces_cell solve s ham v pb ps st))) =
           constructed (trace st) @ map (\<lambda>item. new_obe s ham (snd item)) ps"
    by (simp_all add: forces_cell_def)
qed





lemma forces_cell_fails:
  assumes pre: "\<forall>item \<in> set pre. \<exists>d. evaluate_one solve s ham v pb (snd item) = Inr d"
    and fail: "evaluate_one solve s ham v pb (snd item) = Inl e"
  shows "fst (forces_cell solve s ham v pb (pre @ item # post) st) = Some e"
    and "evaluations (trace (snd (forces_cell solve s ham v pb (pre @ item # post) st))) =
           evaluations (trace st) @
             map (\<lambda>item. (new_obe s ham (snd item), fst (two_three_grid v),
                           snd (two_three_grid v), ''molasses'')) (pre @ [item])"
    and "dom (obe (snd (forces_cell solve s ham v pb (pre @ item # post) st))) =
           fst ` set (pre @ [item])"
proof -
  let ?st0 = "st\<lparr>obe := Map.empty\<rparr>"
  from sweep_succeeds[OF pre] have ok: "fst (sweep solve s ham v pb pre ?st0) = None" .
  then obtain st1 where st1: "sweep solve s ham v pb pre ?st0 = (None, st1)"
    by (cases "sweep solve s ham v pb pre ?st0") auto
  have whole: "sweep solve s ham v pb (pre @ item # post) ?st0 =
      (Some e, snd (sweep_body solve s ham v pb item st1))"
    using st1 sweep_fails_at[OF fail, of post st1] by (simp add: sweep_append)
  have ok': "fst (forces_cell solve s ham v pb pre st) = None"
    using ok by (simp add: forces_cell_def)
  have st1': "snd (forces_cell solve s ham v pb pre st) = st1"
    using st1 by (simp add: forces_cell_def)
  show "fst (forces_cell solve s ham v pb (pre @ item # post) st) = Some e"
    using whole by (simp add: forces_cell_def)
  show "evaluations (trace (snd (forces_cell solve s ham v pb (pre @ item # post) st))) =
           evaluations (trace st) @
             map (\<lambda>item. (new_obe s ham (snd item), fst (two_three_grid v),
                           snd (two_three_grid v), ''molasses'')) (pre @ [item])"
    using whole forces_cell_trace_None(1)[OF ok'] st1'
      sweep_body_projections(3)[of solve s ham v pb item st1]
    by (simp add: forces_cell_def)
  show "dom (obe (snd (forces_cell solve s ham v pb (pre @ item # post) st))) =
           fst ` set (pre @ [item])"
    using whole forces_cell_dom[OF ok'] st1' sweep_body_obe[of solve s ham v pb item st1]
    by (simp add: forces_cell_def)
qed

lemma force_cell_fails:
  assumes "fst (generate_force_profile solve (new_trap eq lb ham)
             (fst (part_000_grid x v)) (snd (part_000_grid x v)) name [] pb) = Inl e"
  shows "fst (force_cell solve eq lb ham x v name pb st) = Some e"
    and "Fz_D2 (snd (force_cell solve eq lb ham x v name pb st)) = Fz_D2 st"
proof -
  let ?g = "generate_force_profile solve (new_trap eq lb ham)
             (fst (part_000_grid x v)) (snd (part_000_grid x v)) name [] pb"
  from assms obtain out where g: "?g = (Inl e, out)" by (cases ?g) auto
  from force_cell_raised(1,3)[OF g]
  show "fst (force_cell solve eq lb ham x v name pb st) = Some e"
    and "Fz_D2 (snd (force_cell solve eq lb ham x v name pb st)) = Fz_D2 st"
    by simp_all
qed

lemma forces_cell_cong:
  assumes "\<And>pl. evaluate_one solve s ham v pb1 pl = evaluate_one solve s ham v pb2 pl"
  shows "fst (forces_cell solve s ham v pb1 ps st1) = fst (forces_cell solve s ham v pb2 ps st2)"
    and "obe (snd (forces_cell solve s ham v pb1 ps st1))
           = obe (snd (forces_cell solve s ham v pb2 ps st2))"
proof -
  have "obe (st1\<lparr>obe := Map.empty\<rparr>) = obe (st2\<lparr>obe := Map.empty\<rparr>)" by simp
  from sweep_obe_cong[OF this assms, of ps]
  show "fst (forces_cell solve s ham v pb1 ps st1) = fst (forces_cell solve s ham v pb2 ps st2)"
    and "obe (snd (forces_cell solve s ham v pb1 ps st1))
           = obe (snd (forces_cell solve s ham v pb2 ps st2))"
    by (simp_all add: forces_cell_def)
qed

lemma forces_cell_constructed:
  "\<exists>n. n \<le> length ps \<and> (ps \<noteq> [] \<longrightarrow> 0 < n) \<and>
     constructed (trace (snd (forces_cell solve s ham v pb ps st))) =
       constructed (trace st) @ map (\<lambda>item. new_obe s ham (snd item)) (take n ps)"
  using sweep_constructed[of ps solve s ham v pb "st\<lparr>obe := Map.empty\<rparr>"]
  by (simp add: forces_cell_def)

lemma forces_cell_obe_field_free:
  assumes "obe (snd (forces_cell solve s ham v pb ps st)) k = Some t"
  shows "field_free t"
  using sweep_obe_fields[of solve s ham v pb ps "st\<lparr>obe := Map.empty\<rparr>" k t] assms
  by (simp add: forces_cell_def field_free_def)

lemma field_free_zero: "field_free t \<Longrightarrow> field_at (obj_magField t) r = (0, 0, 0)"
  by (simp add: field_free_def)

section \<open>The claims\<close>

subsection \<open>C1\<close>



subsection \<open>C2\<close>

text \<open>
  The scenario of section 8 of the specification, run with a solver that converges: the
  run raises nothing, and the force array under \<^verbatim>\<open>"default"\<close> has shape \<open>(3, 3, 1)\<close> in the
  cell of \<^verbatim>\<open>part_000\<close> and \<open>(3, 3)\<close> in the sweep, in neither case \<open>(3, 1, 3)\<close>.
\<close>

theorem default_scenario_counterexample:
  "fst default_part_000 = None
   \<and> map_option shape (stored_force (trap_D2 (snd default_part_000)) ''default'') = Some [3, 3, 1]
   \<and> map_option shape (stored_force (trap_D2 (snd default_part_000)) ''default'') \<noteq> Some [3, 1, 3]
   \<and> fst default_two_three = None
   \<and> map_option shape (stored_force (obe (snd default_two_three) ''default'') ''molasses'')
       = Some [3, 3]
   \<and> map_option shape (stored_force (obe (snd default_two_three) ''default'') ''molasses'')
       \<noteq> Some [3, 1, 3]"
proof -
  have a: "fst default_part_000 = None"
    by (simp add: default_part_000_def run_defs)
  have b: "map_option shape (stored_force (trap_D2 (snd default_part_000)) ''default'')
             = Some [3, 3, 1]"
    by (simp add: default_part_000_def run_defs)
  have c: "fst default_two_three = None"
    by (simp add: default_two_three_def run_defs)
  have d: "map_option shape (stored_force (obe (snd default_two_three) ''default'') ''molasses'')
             = Some [3, 3]"
    by (simp add: default_two_three_def run_defs)
  have b': "map_option shape (stored_force (trap_D2 (snd default_part_000)) ''default'')
             \<noteq> Some [3, 1, 3]"
    unfolding b by simp
  have d': "map_option shape (stored_force (obe (snd default_two_three) ''default'') ''molasses'')
             \<noteq> Some [3, 1, 3]"
    unfolding d by simp
  from a b b' c d d' show ?thesis by blast
qed

text \<open>
  Claim C2, as amended. For the velocity sequence \<^verbatim>\<open>[0.01, 0.5, 2.5]\<close>, the position
  \<^verbatim>\<open>[0.0]\<close> and the label \<^verbatim>\<open>"default"\<close>, a run that raised nothing leaves exactly one
  entry, keyed \<^verbatim>\<open>"default"\<close>; its force array has shape \<open>(3, 3, 1)\<close> through the mesh grid of
  \<^verbatim>\<open>part_000\<close>, the velocity axis before the position axis, and shape \<open>(3, 3)\<close> in the sweep of
  \<^verbatim>\<open>two_three_forces.ipynb\<close>, whose grid is the velocity array itself.
\<close>

theorem default_scenario_shape:
  "(fst (force_cell solve eq lb ham (array [0.0]) (array [0.01, 0.5, 2.5]) ''default'' pb st) = None
      \<longrightarrow>
      (\<exists>t F. trap_D2 (snd (force_cell solve eq lb ham (array [0.0]) (array [0.01, 0.5, 2.5])
                               ''default'' pb st)) = Some t
          \<and> dom (profile t) = {''default''}
          \<and> stored_force (Some t) ''default'' = Some F \<and> shape F = [3, 3, 1]))
   \<and> (fst (forces_cell solve2 s ham2 (array [0.01, 0.5, 2.5]) pb2 [(''default'', pl)] st2) = None
      \<longrightarrow>
      dom (obe (snd (forces_cell solve2 s ham2 (array [0.01, 0.5, 2.5]) pb2 [(''default'', pl)]
                       st2))) = {''default''}
      \<and> (\<exists>F. stored_force
                (obe (snd (forces_cell solve2 s ham2 (array [0.01, 0.5, 2.5]) pb2
                             [(''default'', pl)] st2)) ''default'') ''molasses'' = Some F
            \<and> shape F = [3, 3]))"
  using default_scenario_part_000[of solve eq lb ham pb st] default_scenario_two_three[of solve2 s ham2 pb2 pl st2] by blast

text \<open>
  Both runs of the scenario under the solver that converges everywhere.
\<close>

theorem default_scenario_shape_witness:
  "fst default_part_000 = None
   \<and> (\<exists>t F. trap_D2 (snd default_part_000) = Some t \<and> dom (profile t) = {''default''}
          \<and> stored_force (Some t) ''default'' = Some F \<and> shape F = [3, 3, 1])
   \<and> fst default_two_three = None
   \<and> dom (obe (snd default_two_three)) = {''default''}
   \<and> (\<exists>F. stored_force (obe (snd default_two_three) ''default'') ''molasses'' = Some F
          \<and> shape F = [3, 3])"
proof -
  have a: "fst default_part_000 = None"
    by (simp add: default_part_000_def run_defs)
  have b: "fst default_two_three = None"
    by (simp add: default_two_three_def run_defs)
  note inst = default_scenario_shape[of still_solver "''obe''" "()" "()" True fresh_part_000
      still_solver "1.0" "()" True "((0, 0, 1), (1, 0, 0))" fresh_two_three,
      folded default_part_000_def default_two_three_def]
  from a b inst show ?thesis by blast
qed

subsection \<open>C3\<close>

text \<open>
  Claim C3 says that no (position, velocity) pair occurs twice in the grid of one
  evaluation. The run of \<^verbatim>\<open>part_000\<close> asks for one evaluation, over the grid of the
  notebook; that grid has 15 pairs, and its pairs number 9 and 10 are the same: velocity
  0.5 closes the first \<^verbatim>\<open>linspace\<close> and opens the second.
\<close>

theorem part_000_grid_repeats_point:
  "evaluations (trace (snd (part_000_run solve lb ham st))) =
     evaluations (trace st) @
       [(new_trap ''obe'' lb ham, fst (part_000_grid part_000_x part_000_v),
         snd (part_000_grid part_000_x part_000_v), ''Fz'')]
   \<and> grid_pairs (part_000_grid part_000_x part_000_v) ! 9 = ((0, 0, 0), (0, 0, 0.5))
   \<and> grid_pairs (part_000_grid part_000_x part_000_v) ! 10 = ((0, 0, 0), (0, 0, 0.5))
   \<and> length (grid_pairs (part_000_grid part_000_x part_000_v)) = 15
   \<and> \<not> distinct (grid_pairs (part_000_grid part_000_x part_000_v))"
proof -
  have run: "evaluations (trace (snd (part_000_run solve lb ham st))) =
     evaluations (trace st) @
       [(new_trap ''obe'' lb ham, fst (part_000_grid part_000_x part_000_v),
         snd (part_000_grid part_000_x part_000_v), ''Fz'')]"
    by (simp only: part_000_run_def force_cell_projections(2))
  have grid: "grid_pairs (part_000_grid part_000_x part_000_v) ! 9 = ((0, 0, 0), (0, 0, 0.5))
   \<and> grid_pairs (part_000_grid part_000_x part_000_v) ! 10 = ((0, 0, 0), (0, 0, 0.5))
   \<and> length (grid_pairs (part_000_grid part_000_x part_000_v)) = 15
   \<and> \<not> distinct (grid_pairs (part_000_grid part_000_x part_000_v))"
    by code_simp
  from run grid show ?thesis by blast
qed

subsection \<open>C4\<close>



subsection \<open>C5\<close>



subsection \<open>C6\<close>

text \<open>
  Claim C6. When the evaluation of one configuration raises, after those before it have
  succeeded, the sweep ends with that very exception; the library has been asked for the
  configurations up to the failing one, each once and the failing one last, and for none
  after it; the labels bound are those up to the failing one. In \<^verbatim>\<open>part_000\<close> an
  exception of the evaluation is the cell's exception: one evaluation has been asked for,
  and \<^verbatim>\<open>Fz_D2\<close> is not assigned.
\<close>

theorem failure_propagates:
  "((\<forall>item \<in> set pre. \<exists>d. evaluate_one solve s ham v pb (snd item) = Inr d)
      \<and> evaluate_one solve s ham v pb (snd item) = Inl e \<longrightarrow>
      fst (forces_cell solve s ham v pb (pre @ item # post) st) = Some e
      \<and> evaluations (trace (snd (forces_cell solve s ham v pb (pre @ item # post) st))) =
           evaluations (trace st) @
             map (\<lambda>item. (new_obe s ham (snd item), fst (two_three_grid v),
                           snd (two_three_grid v), ''molasses'')) (pre @ [item])
      \<and> dom (obe (snd (forces_cell solve s ham v pb (pre @ item # post) st))) =
           fst ` set (pre @ [item]))
   \<and> (fst (generate_force_profile solve2 (new_trap eq lb ham2)
             (fst (part_000_grid x v2)) (snd (part_000_grid x v2)) name [] pb2) = Inl e2 \<longrightarrow>
      fst (force_cell solve2 eq lb ham2 x v2 name pb2 st2) = Some e2
      \<and> Fz_D2 (snd (force_cell solve2 eq lb ham2 x v2 name pb2 st2)) = Fz_D2 st2
      \<and> evaluations (trace (snd (force_cell solve2 eq lb ham2 x v2 name pb2 st2))) =
           evaluations (trace st2) @
             [(new_trap eq lb ham2, fst (part_000_grid x v2), snd (part_000_grid x v2), name)])"
  using forces_cell_fails[of pre solve s ham v pb item e post st]
    force_cell_fails[of solve2 eq lb ham2 x v2 name pb2 e2 st2]
    force_cell_projections(2)[of solve2 eq lb ham2 x v2 name pb2 st2]
  by blast

text \<open>
  A solver that fails on the second of three polarizations: the sweep ends with its
  exception after two evaluations, and the third label is never bound. A solver that
  always fails: the cell of \<^verbatim>\<open>part_000\<close> ends with its exception after one evaluation.
\<close>

theorem failure_propagates_witness:
  "(\<exists>d. evaluate_one picky_solver 1.0 () (array [0.01, 0.5]) True ((0, 0, 1), (1, 0, 0)) = Inr d)
   \<and> evaluate_one picky_solver 1.0 () (array [0.01, 0.5]) True ((1, 0, 0), (1, 0, 0))
       = Inl (LibraryError ''no convergence'')
   \<and> fst failing_two_three = Some (LibraryError ''no convergence'')
   \<and> map fst (evaluations (trace (snd failing_two_three))) =
       [new_obe 1.0 () ((0, 0, 1), (1, 0, 0)), new_obe 1.0 () ((1, 0, 0), (1, 0, 0))]
   \<and> dom (obe (snd failing_two_three)) = {''sigma'', ''lin''}
   \<and> fst (generate_force_profile failing_solver (new_trap ''obe'' () ())
             (fst (part_000_grid (array [0.0]) (array [0.01, 0.5])))
             (snd (part_000_grid (array [0.0]) (array [0.01, 0.5]))) ''Fz'' [] True)
       = Inl (LibraryError ''no convergence'')
   \<and> fst failing_part_000 = Some (LibraryError ''no convergence'')
   \<and> Fz_D2 (snd failing_part_000) = None
   \<and> length (evaluations (trace (snd failing_part_000))) = 1"
proof -
  have a: "\<forall>item \<in> set [(''sigma'', ((0, 0, 1), (1, 0, 0)))].
       \<exists>d. evaluate_one picky_solver 1.0 () (array [0.01, 0.5]) True (snd item) = Inr d"
    by (simp add: evaluate_one_def picky_solver_def return_lasers_def run_defs)
  have b: "evaluate_one picky_solver 1.0 () (array [0.01, 0.5]) True
             (snd (''lin'', ((1::real, 0::real, 0::real), (1::real, 0::real, 0::real))))
       = Inl (LibraryError ''no convergence'')"
    by (simp add: evaluate_one_def picky_solver_def return_lasers_def run_defs)
  have c: "fst (generate_force_profile failing_solver (new_trap ''obe'' () ())
             (fst (part_000_grid (array [0.0]) (array [0.01, 0.5])))
             (snd (part_000_grid (array [0.0]) (array [0.01, 0.5]))) ''Fz'' [] True)
       = Inl (LibraryError ''no convergence'')"
    by (simp add: failing_solver_def run_defs)
  have split: "[(''sigma'', ((0, 0, 1), (1, 0, 0)))] @ (''lin'', ((1, 0, 0), (1, 0, 0)))
                 # [(''sigma2'', ((0, 1, 0), (0, 0, 1)))] = three_pols"
    by (simp add: three_pols_def)
  have t: "evaluations (trace fresh_two_three) = []" "Fz_D2 fresh_part_000 = None"
    "evaluations (trace fresh_part_000) = []"
    by (simp_all add: fresh_two_three_def fresh_part_000_def)
  note inst = failure_propagates[of "[(''sigma'', ((0, 0, 1), (1, 0, 0)))]" picky_solver "1.0" "()"
      "array [0.01, 0.5]" True "(''lin'', ((1, 0, 0), (1, 0, 0)))" "LibraryError ''no convergence''"
      "[(''sigma2'', ((0, 1, 0), (0, 0, 1)))]" fresh_two_three
      failing_solver "''obe''" "()" "()" "array [0.0]" "array [0.01, 0.5]" "''Fz''" True
      "LibraryError ''no convergence''" fresh_part_000,
      unfolded split, folded failing_two_three_def failing_part_000_def]
  from inst a b have s1: "fst failing_two_three = Some (LibraryError ''no convergence'')"
    and s2: "evaluations (trace (snd failing_two_three)) =
           evaluations (trace fresh_two_three) @
             map (\<lambda>item. (new_obe 1.0 () (snd item), fst (two_three_grid (array [0.01, 0.5])),
                           snd (two_three_grid (array [0.01, 0.5])), ''molasses''))
               ([(''sigma'', ((0, 0, 1), (1, 0, 0)))] @ [(''lin'', ((1, 0, 0), (1, 0, 0)))])"
    and s3: "dom (obe (snd failing_two_three)) =
           fst ` set ([(''sigma'', ((0::real, 0::real, 1::real), (1::real, 0::real, 0::real)))]
                      @ [(''lin'', ((1, 0, 0), (1, 0, 0)))])"
    by blast+
  from inst c have s4: "fst failing_part_000 = Some (LibraryError ''no convergence'')"
    and s5: "Fz_D2 (snd failing_part_000) = Fz_D2 fresh_part_000"
    and s6: "evaluations (trace (snd failing_part_000)) =
           evaluations (trace fresh_part_000) @
             [(new_trap ''obe'' () (), fst (part_000_grid (array [0.0]) (array [0.01, 0.5])),
               snd (part_000_grid (array [0.0]) (array [0.01, 0.5])), ''Fz'')]"
    by blast+
  from s2 t have s2': "map fst (evaluations (trace (snd failing_two_three))) =
       [new_obe 1.0 () ((0, 0, 1), (1, 0, 0)), new_obe 1.0 () ((1, 0, 0), (1, 0, 0))]"
    by simp
  from s3 have s3': "dom (obe (snd failing_two_three)) = {''sigma'', ''lin''}"
    by auto
  from s5 t have s5': "Fz_D2 (snd failing_part_000) = None" by simp
  from s6 t have s6': "length (evaluations (trace (snd failing_part_000))) = 1" by simp
  from b have b': "evaluate_one picky_solver 1.0 () (array [0.01, 0.5]) True ((1, 0, 0), (1, 0, 0))
       = Inl (LibraryError ''no convergence'')"
    by simp
  have a': "\<exists>d. evaluate_one picky_solver 1.0 () (array [0.01, 0.5]) True ((0, 0, 1), (1, 0, 0))
              = Inr d"
    by (simp add: evaluate_one_def picky_solver_def return_lasers_def run_defs)
  from a' b' c s1 s2' s3' s4 s5' s6' show ?thesis by blast
qed

subsection \<open>C7\<close>

text \<open>
  Claim C7. The solver being a function of its arguments, the sweep gives the same
  outcome and the same result mapping from any two states of the notebook, in particular
  when it is run again from the state its own first run left; and the cell of
  \<^verbatim>\<open>part_000\<close> gives the same outcome and the same object from any two states, and the
  same \<^verbatim>\<open>Fz_D2\<close> whenever it raises nothing. Arrays of reals stand for the arrays of
  floats.
\<close>

theorem rerun_gives_same_arrays:
  "fst (forces_cell solve s ham v pb ps st1) = fst (forces_cell solve s ham v pb ps st2)
   \<and> obe (snd (forces_cell solve s ham v pb ps st1)) = obe (snd (forces_cell solve s ham v pb ps st2))
   \<and> obe (snd (forces_cell solve s ham v pb ps (snd (forces_cell solve s ham v pb ps st1))))
       = obe (snd (forces_cell solve s ham v pb ps st1))
   \<and> fst (force_cell solve2 eq lb ham2 x v2 name pb2 a1)
       = fst (force_cell solve2 eq lb ham2 x v2 name pb2 a2)
   \<and> trap_D2 (snd (force_cell solve2 eq lb ham2 x v2 name pb2 a1))
       = trap_D2 (snd (force_cell solve2 eq lb ham2 x v2 name pb2 a2))
   \<and> (fst (force_cell solve2 eq lb ham2 x v2 name pb2 a1) = None \<longrightarrow>
        Fz_D2 (snd (force_cell solve2 eq lb ham2 x v2 name pb2 a1))
          = Fz_D2 (snd (force_cell solve2 eq lb ham2 x v2 name pb2 a2)))"
  using forces_cell_cong[of solve s ham v pb pb ps st1 st2]
    forces_cell_cong(2)[of solve s ham v pb pb ps "snd (forces_cell solve s ham v pb ps st1)" st1]
    force_cell_cong[of solve2 eq lb ham2 x v2 name pb2 pb2 a1 a2]
  by simp

text \<open>
  The cell of \<^verbatim>\<open>part_000\<close> run a second time, from the state the first run left.
\<close>

theorem rerun_gives_same_arrays_witness:
  "fst example_part_000 = None
   \<and> Fz_D2 (snd example_part_000)
       = Fz_D2 (snd (force_cell still_solver ''obe'' () () (array [0.0]) (array [0.01, 0.5]) ''Fz''
                       True (snd example_part_000)))
   \<and> Fz_D2 (snd example_part_000) \<noteq> None"
proof -
  have a: "fst example_part_000 = None"
    by (simp add: example_part_000_def run_defs)
  have b: "Fz_D2 (snd example_part_000) \<noteq> None"
    by (simp add: example_part_000_def run_defs)
  note inst = rerun_gives_same_arrays[of still_solver "1.0" "()" "array [0.01, 0.5]" True
      three_pols fresh_two_three fresh_two_three
      still_solver "''obe''" "()" "()" "array [0.0]" "array [0.01, 0.5]" "''Fz''" True
      fresh_part_000 "snd example_part_000", folded example_part_000_def]
  from inst a have "Fz_D2 (snd example_part_000)
       = Fz_D2 (snd (force_cell still_solver ''obe'' () () (array [0.0]) (array [0.01, 0.5]) ''Fz''
                       True (snd example_part_000)))"
    by blast
  with a b show ?thesis by blast
qed

subsection \<open>C8\<close>

text \<open>
  Claim C8. With the progress flag on or off, the sweep has the same outcome and the same
  result mapping, and the cell of \<^verbatim>\<open>part_000\<close> the same outcome, the same object and the
  same \<^verbatim>\<open>Fz_D2\<close>: the flag only changes what is printed.
\<close>

theorem progress_bar_observational:
  "fst (forces_cell solve s ham v True ps st) = fst (forces_cell solve s ham v False ps st)
   \<and> obe (snd (forces_cell solve s ham v True ps st))
       = obe (snd (forces_cell solve s ham v False ps st))
   \<and> fst (force_cell solve2 eq lb ham2 x v2 name True a)
       = fst (force_cell solve2 eq lb ham2 x v2 name False a)
   \<and> trap_D2 (snd (force_cell solve2 eq lb ham2 x v2 name True a))
       = trap_D2 (snd (force_cell solve2 eq lb ham2 x v2 name False a))
   \<and> Fz_D2 (snd (force_cell solve2 eq lb ham2 x v2 name True a))
       = Fz_D2 (snd (force_cell solve2 eq lb ham2 x v2 name False a))"
  using forces_cell_cong[of solve s ham v True False ps st st, OF evaluate_one_flag]
    force_cell_cong[of solve2 eq lb ham2 x v2 name True False a a,
      OF generate_force_profile_flag]
  by simp

subsection \<open>C9\<close>

text \<open>
  Claim C9. The objects a sweep constructs are those of \<open>new_obe\<close> for an initial stretch
  of the configurations (all of them unless an evaluation raised, and at least the first),
  and the cell of \<^verbatim>\<open>part_000\<close> constructs the one object of \<open>new_trap\<close>, whichever
  equations \<open>eq\<close> selects. Each of these objects, and each object found afterwards in the
  result mapping or in \<^verbatim>\<open>trap_D2\<close>, has the constant zero field, which is the zero
  vector at every position, and has magnetic forces switched off.
\<close>

theorem no_magnetic_field:
  "(\<exists>n. n \<le> length ps \<and> (ps \<noteq> [] \<longrightarrow> 0 < n) \<and>
      constructed (trace (snd (forces_cell solve s ham v pb ps st))) =
        constructed (trace st) @ map (\<lambda>item. new_obe s ham (snd item)) (take n ps))
   \<and> field_free (new_obe s ham pl)
   \<and> (\<forall>k t. obe (snd (forces_cell solve s ham v pb ps st)) k = Some t \<longrightarrow> field_free t)
   \<and> constructed (trace (snd (force_cell solve2 eq lb ham2 x v2 name pb2 a))) =
        constructed (trace a) @ [new_trap eq lb ham2]
   \<and> field_free (new_trap eq lb ham2)
   \<and> (\<forall>t. trap_D2 (snd (force_cell solve2 eq lb ham2 x v2 name pb2 a)) = Some t \<longrightarrow> field_free t)
   \<and> (\<forall>t :: ('b, 'h) trap. field_free t \<longrightarrow>
         obj_magField t = constantMagneticField (0, 0, 0)
         \<and> (\<forall>r. field_at (obj_magField t) r = (0, 0, 0)) \<and> \<not> include_mag_forces t)"
  using forces_cell_constructed[of ps solve s ham v pb st]
    new_obe_field_free[of s ham pl]
    forces_cell_obe_field_free[of solve s ham v pb ps st]
    force_cell_projections(1)[of solve2 eq lb ham2 x v2 name pb2 a]
    new_trap_field_free[of eq lb ham2]
    force_cell_trap_field_free[of solve2 eq lb ham2 x v2 name pb2 a]
    field_free_zero
  by (simp add: field_free_def)

text \<open>
  The objects of a sweep that failed at its second label, and the object of the cell of
  \<^verbatim>\<open>part_000\<close>, for both choices of \<open>eq\<close>.
\<close>

theorem no_magnetic_field_witness:
  "constructed (trace (snd failing_two_three)) =
     [new_obe 1.0 () ((0, 0, 1), (1, 0, 0)), new_obe 1.0 () ((1, 0, 0), (1, 0, 0))]
   \<and> (\<exists>t. obe (snd failing_two_three) ''lin'' = Some t \<and> field_free t
          \<and> field_at (obj_magField t) (1, 2, 3) = (0, 0, 0) \<and> \<not> include_mag_forces t)
   \<and> (\<exists>t. trap_D2 (snd example_part_000) = Some t \<and> field_free t
          \<and> field_at (obj_magField t) (1, 2, 3) = (0, 0, 0) \<and> \<not> include_mag_forces t)
   \<and> field_free (new_trap ''rateeq'' () ())"
proof -
  have a: "constructed (trace (snd failing_two_three)) =
     [new_obe 1.0 () ((0, 0, 1), (1, 0, 0)), new_obe 1.0 () ((1, 0, 0), (1, 0, 0))]"
    by (simp add: failing_two_three_def three_pols_def fresh_two_three_def picky_solver_def
        return_lasers_def run_defs)
  have b: "\<exists>t. obe (snd failing_two_three) ''lin'' = Some t"
    by (simp add: failing_two_three_def three_pols_def fresh_two_three_def picky_solver_def
        return_lasers_def run_defs)
  have c: "\<exists>t. trap_D2 (snd example_part_000) = Some t"
    by (simp add: example_part_000_def fresh_part_000_def run_defs)
  note inst1 = no_magnetic_field[of three_pols picky_solver "1.0" "()" "array [0.01, 0.5]" True
      fresh_two_three "((1, 0, 0), (1, 0, 0))"
      still_solver "''obe''" "()" "()" "array [0.0]" "array [0.01, 0.5]" "''Fz''" True
      fresh_part_000, where ?'b = laser_beams and ?'h = unit,
      folded failing_two_three_def example_part_000_def]
  note inst2 = no_magnetic_field[of three_pols picky_solver "1.0" "()" "array [0.01, 0.5]" True
      fresh_two_three "((1, 0, 0), (1, 0, 0))"
      still_solver "''rateeq''" "()" "()" "array [0.0]" "array [0.01, 0.5]" "''Fz''" True
      fresh_part_000, where ?'b = unit and ?'h = unit,
      folded failing_two_three_def example_part_000_def]
  note inst3 = no_magnetic_field[of three_pols picky_solver "1.0" "()" "array [0.01, 0.5]" True
      fresh_two_three "((1, 0, 0), (1, 0, 0))"
      still_solver "''obe''" "()" "()" "array [0.0]" "array [0.01, 0.5]" "''Fz''" True
      fresh_part_000, where ?'b = unit and ?'h = unit,
      folded failing_two_three_def example_part_000_def]
  from inst1 b have s1: "\<exists>t. obe (snd failing_two_three) ''lin'' = Some t \<and> field_free t
          \<and> field_at (obj_magField t) (1, 2, 3) = (0, 0, 0) \<and> \<not> include_mag_forces t"
    by blast
  from inst3 c have s2: "\<exists>t. trap_D2 (snd example_part_000) = Some t \<and> field_free t
          \<and> field_at (obj_magField t) (1, 2, 3) = (0, 0, 0) \<and> \<not> include_mag_forces t"
    by blast
  from inst2 have s3: "field_free (new_trap ''rateeq'' () ())"
    by blast
  from a s1 s2 s3 show ?thesis by blast
qed

subsection \<open>C10\<close>


end
